theory Spec2Isabelle
  imports Main "HOL-Library.Multiset"
begin

section \<open>Data model of \<open>src/lib/k8s.ts\<close>\<close>

text \<open>
  The interface \<open>MinimalK8sSpec\<close> (lines 171-177) gives a spec a string \<open>kind\<close> and a
  \<open>metadata\<close> block with a string \<open>name\<close> and an optional string \<open>namespace\<close>; the
  dispatch also reads \<open>apiVersion\<close>. Every field may be missing in a decoded document,
  so each is an option, \<open>None\<close> standing for both \<open>undefined\<close> and \<open>null\<close> (the code
  only reads fields through \<open>?.\<close>, truthiness and \<open>===\<close> against a string literal, none of
  which tells the two apart). The kind-specific remainder of a document is never
  inspected by this module and is kept as an opaque \<open>body\<close>. A spec itself may be
  \<open>undefined\<close> or \<open>null\<close> (an empty document, or the result of the transform), so the
  functions below take a \<open>spec option\<close>.
\<close>

record metadata =
  name :: "string option"
  namespace :: "string option"

record spec =
  apiVersion :: "string option"
  kind :: "string option"
  metadata :: "metadata option"
  body :: string

text \<open>
  The resource classes of \<open>@pulumi/kubernetes\<close> that \<open>createSpecResource\<close> instantiates
  (lines 88-168), one constructor per \<open>new k8s. ...\<close> expression.
\<close>

datatype family =
    CoreV1_ConfigMap
  | CoreV1_Namespace
  | CoreV1_Secret
  | CoreV1_Service
  | CoreV1_ServiceAccount
  | AppsV1_DaemonSet
  | AppsV1_Deployment
  | AppsV1_StatefulSet
  | BatchV1_Job
  | BatchV1beta1_CronJob
  | PolicyV1beta1_PodDisruptionBudget
  | PolicyV1beta1_PodSecurityPolicy
  | NetworkingV1_NetworkPolicy
  | NetworkingV1beta1_Ingress
  | RbacV1_ClusterRole
  | RbacV1_ClusterRoleBinding
  | RbacV1_Role
  | RbacV1_RoleBinding
  | AdmissionregistrationV1beta1_MutatingWebhookConfiguration
  | AdmissionregistrationV1_MutatingWebhookConfiguration
  | AdmissionregistrationV1beta1_ValidatingWebhookConfiguration
  | AdmissionregistrationV1_ValidatingWebhookConfiguration
  | ApiextensionsV1beta1_CustomResourceDefinition
  | ApiextensionsV1_CustomResourceDefinition
  | Apiextensions_CustomResource

text \<open>
  A resource handle records what its constructor was given: the class, the resource
  name, the spec and the options as they were at construction. \<open>Foreign\<close> is a
  resource declared outside this module (the caller's own \<open>dependsOn\<close> entries).
  The options (\<open>{ provider } & pulumi.CustomResourceOptions\<close>, line 26) are the provider
  handle, the optional \<open>dependsOn\<close> list and the remaining settings, which this module
  never reads.
\<close>

datatype resource =
    Resource (rfamily: family) (rname: string) (rspec: spec) (ropts: options)
  | Foreign string
and options =
    Options (provider: string) (dependsOn: "resource list option")
      (settings: "(string \<times> string) list")

section \<open>Strings\<close>

text \<open>
  \<open>String.prototype.toLowerCase\<close> on the letters \<open>A\<close> to \<open>Z\<close>; every other character is
  kept (kinds are ASCII identifiers).
\<close>

definition lowerChar :: "char \<Rightarrow> char" where
  "lowerChar c =
     (case map_of (zip ''ABCDEFGHIJKLMNOPQRSTUVWXYZ'' ''abcdefghijklmnopqrstuvwxyz'') c of
        Some d \<Rightarrow> d
      | None \<Rightarrow> c)"

definition toLowerCase :: "string \<Rightarrow> string" where
  "toLowerCase s = map lowerChar s"

text \<open>\<open>Array.prototype.join\<close> on an array of strings.\<close>

fun join :: "string \<Rightarrow> string list \<Rightarrow> string" where
  "join sep [] = []"
| "join sep [x] = x"
| "join sep (x # y # ys) = x @ sep @ join sep (y # ys)"

text \<open>
  Truthiness of an optional string: \<open>undefined\<close>, \<open>null\<close> and the empty string are
  falsy, every other string is truthy.
\<close>

fun truthy :: "string option \<Rightarrow> bool" where
  "truthy None = False"
| "truthy (Some s) = (s \<noteq> [])"

section \<open>Optional chaining\<close>

text \<open>\<open>spec?.kind\<close>, \<open>spec?.metadata?.name\<close> and \<open>spec.metadata?.namespace\<close>.\<close>

fun kindOf :: "spec option \<Rightarrow> string option" where
  "kindOf None = None"
| "kindOf (Some s) = kind s"

fun nameOf :: "spec option \<Rightarrow> string option" where
  "nameOf None = None"
| "nameOf (Some s) = (case metadata s of None \<Rightarrow> None | Some m \<Rightarrow> name m)"

fun namespaceOf :: "spec \<Rightarrow> string option" where
  "namespaceOf s = (case metadata s of None \<Rightarrow> None | Some m \<Rightarrow> namespace m)"

section \<open>\<open>specResourceName\<close> (lines 180-191)\<close>

fun specResourceName :: "spec option \<Rightarrow> string option" where
  "specResourceName None = None"
| "specResourceName (Some s) =
     (if \<not> truthy (kindOf (Some s)) \<or> \<not> truthy (nameOf (Some s)) then None
      else
        case (kind s, nameOf (Some s)) of
          (Some k, Some n) \<Rightarrow>
            let kind' = toLowerCase k;
                parts = [''k8s'', kind'];
                parts = (case namespaceOf s of
                           Some ns \<Rightarrow>
                             if kind' \<noteq> ''namespace'' \<and> truthy (Some ns)
                             then parts @ [ns] else parts
                         | None \<Rightarrow> parts);
                parts = parts @ [n]
            in Some (join ''/'' parts)
        | _ \<Rightarrow> None)"

section \<open>\<open>createSpecResource\<close> (lines 80-169)\<close>

text \<open>The branch chain of lines 88-168: the class instantiated for a spec.\<close>

definition resourceClass :: "spec \<Rightarrow> family" where
  "resourceClass s =
     (if kind s = Some ''ConfigMap'' then CoreV1_ConfigMap
      else if kind s = Some ''Namespace'' then CoreV1_Namespace
      else if kind s = Some ''Secret'' then CoreV1_Secret
      else if kind s = Some ''Service'' then CoreV1_Service
      else if kind s = Some ''ServiceAccount'' then CoreV1_ServiceAccount
      else if kind s = Some ''DaemonSet'' then AppsV1_DaemonSet
      else if kind s = Some ''Deployment'' then AppsV1_Deployment
      else if kind s = Some ''StatefulSet'' then AppsV1_StatefulSet
      else if kind s = Some ''Job'' then BatchV1_Job
      else if kind s = Some ''CronJob'' then BatchV1beta1_CronJob
      else if kind s = Some ''PodDisruptionBudget'' then PolicyV1beta1_PodDisruptionBudget
      else if kind s = Some ''PodSecurityPolicy'' then PolicyV1beta1_PodSecurityPolicy
      else if kind s = Some ''NetworkPolicy'' then NetworkingV1_NetworkPolicy
      else if kind s = Some ''Ingress'' then NetworkingV1beta1_Ingress
      else if kind s = Some ''ClusterRole'' then RbacV1_ClusterRole
      else if kind s = Some ''ClusterRoleBinding'' then RbacV1_ClusterRoleBinding
      else if kind s = Some ''Role'' then RbacV1_Role
      else if kind s = Some ''RoleBinding'' then RbacV1_RoleBinding
      else if kind s = Some ''MutatingWebhookConfiguration'' then
        (if apiVersion s = Some ''admissionregistration.k8s.io/v1beta1''
         then AdmissionregistrationV1beta1_MutatingWebhookConfiguration
         else AdmissionregistrationV1_MutatingWebhookConfiguration)
      else if kind s = Some ''ValidatingWebhookConfiguration'' then
        (if apiVersion s = Some ''admissionregistration.k8s.io/v1beta1''
         then AdmissionregistrationV1beta1_ValidatingWebhookConfiguration
         else AdmissionregistrationV1_ValidatingWebhookConfiguration)
      else if kind s = Some ''CustomResourceDefinition'' then
        (if apiVersion s = Some ''apiextensions.k8s.io/v1beta1''
         then ApiextensionsV1beta1_CustomResourceDefinition
         else ApiextensionsV1_CustomResourceDefinition)
      else Apiextensions_CustomResource)"

text \<open>
  \<open>createSpecResource\<close>: no resource when the name of \<open>specResourceName\<close> is falsy
  (lines 84-87), else the class of the branch chain, constructed with the name, the spec
  and the options. The last branch of the \<open>case\<close> is never taken: a name is only derived
  for a spec that is there.
\<close>

definition createSpecResource :: "spec option \<Rightarrow> options \<Rightarrow> resource option" where
  "createSpecResource sp opts =
     (let resource = specResourceName sp
      in if \<not> truthy resource then None
         else
           case (resource, sp) of
             (Some n, Some s) \<Rightarrow> Some (Resource (resourceClass s) n s opts)
           | _ \<Rightarrow> None)"

section \<open>\<open>resourcesFromSpecs\<close> (lines 45-72)\<close>

text \<open>
  Options are objects: the caller passes a reference, line 58 allocates a copy and line
  60 assigns to a field of the copy. The store is the list of the options objects
  allocated so far, a reference is an index into it, and a new object is appended.
  The transform is a function of the spec alone (the interface documents it as a
  rewrite of the spec that may return \<open>undefined\<close>); it does not reach the store.
\<close>

type_synonym ref = nat
type_synonym store = "options list"

record args =
  options :: ref
  specs :: "spec option list"
  transform :: "(spec option \<Rightarrow> spec option) option"

text \<open>Line 48: \<open>args.transform || ((i: any) => i)\<close>.\<close>

definition transformOf :: "args \<Rightarrow> spec option \<Rightarrow> spec option" where
  "transformOf a = (case transform a of Some f \<Rightarrow> f | None \<Rightarrow> (\<lambda>i. i))"

text \<open>The two filter predicates, lines 51-53 and 64-66.\<close>

definition isFirst :: "spec option \<Rightarrow> bool" where
  "isFirst s \<longleftrightarrow>
     kindOf s = Some ''CustomResourceDefinition'' \<or> kindOf s = Some ''Namespace''"

definition isRest :: "spec option \<Rightarrow> bool" where
  "isRest s \<longleftrightarrow>
     kindOf s \<noteq> Some ''CustomResourceDefinition'' \<and> kindOf s \<noteq> Some ''Namespace''"

text \<open>\<open>.filter(r => !!r)\<close> on an array of \<open>Resource | undefined\<close>.\<close>

fun compact :: "'a option list \<Rightarrow> 'a list" where
  "compact [] = []"
| "compact (None # rs) = compact rs"
| "compact (Some r # rs) = r # compact rs"

text \<open>
  One tier (lines 49-57 and 62-70): filter by the predicate, map the transform, create
  each resource under the options value, drop the missing ones.
\<close>

definition tier ::
  "(spec option \<Rightarrow> bool) \<Rightarrow> (spec option \<Rightarrow> spec option) \<Rightarrow> spec option list \<Rightarrow> options
     \<Rightarrow> resource list" where
  "tier p f ss opts =
     compact (map (\<lambda>s. createSpecResource s opts) (map f (filter p ss)))"

text \<open>\<open>opts.dependsOn = first\<close> (line 60) on an options value.\<close>

fun set_dependsOn :: "options \<Rightarrow> resource list \<Rightarrow> options" where
  "set_dependsOn (Options p d st) rs = Options p (Some rs) st"

text \<open>
  The whole function, on a store \<open>h\<close>: \<open>first\<close> is created under the caller's object,
  \<open>opts\<close> is the copy \<open>{ ...args.options }\<close> at a new reference, and \<open>rest\<close> is created
  under the copy after the assignment of line 60. The result is the store afterwards
  and the returned array. It is \<open>None\<close> only when \<open>args.options\<close> does not point into
  the store; a JavaScript reference always points to a live object, so the properties
  below take \<open>options a < length h\<close>.
\<close>

definition resourcesFromSpecs :: "store \<Rightarrow> args \<Rightarrow> (store \<times> resource list) option" where
  "resourcesFromSpecs h a =
     (if options a < length h then
        let transform = transformOf a;
            first = tier isFirst transform (specs a) (h ! options a);
            opts = length h;
            h1 = h @ [h ! options a];
            h2 = (if length first > 0 then h1[opts := set_dependsOn (h1 ! opts) first]
                  else h1);
            rest = tier isRest transform (specs a) (h2 ! opts)
        in Some (h2, first @ rest)
      else None)"

section \<open>Vocabulary of the properties\<close>

text \<open>
  A spec has its identity fields when \<open>kind\<close> and \<open>metadata.name\<close> are both truthy, the
  negation of the test of line 181: a field that is \<open>undefined\<close>, \<open>null\<close> or the empty
  string counts as missing.
\<close>

definition hasIdentity :: "spec option \<Rightarrow> bool" where
  "hasIdentity sp \<longleftrightarrow> truthy (kindOf sp) \<and> truthy (nameOf sp)"

text \<open>The kinds named by the branch chain of lines 88-165, in its order.\<close>

definition mappedKinds :: "string list" where
  "mappedKinds =
     [''ConfigMap'', ''Namespace'', ''Secret'', ''Service'', ''ServiceAccount'',
      ''DaemonSet'', ''Deployment'', ''StatefulSet'', ''Job'', ''CronJob'',
      ''PodDisruptionBudget'', ''PodSecurityPolicy'', ''NetworkPolicy'', ''Ingress'',
      ''ClusterRole'', ''ClusterRoleBinding'', ''Role'', ''RoleBinding'',
      ''MutatingWebhookConfiguration'', ''ValidatingWebhookConfiguration'',
      ''CustomResourceDefinition'']"

text \<open>
  Following the specification (section 6): the foundational-kind set is exactly
  \<open>CustomResourceDefinition\<close> and \<open>Namespace\<close>; a spec is foundational when its kind is
  in the set and dependent otherwise. The source's own predicates are \<open>isFirst\<close> and
  \<open>isRest\<close>.
\<close>

definition foundationalKinds :: "string list" where
  "foundationalKinds = [''CustomResourceDefinition'', ''Namespace'']"

definition isFoundational :: "spec option \<Rightarrow> bool" where
  "isFoundational sp =
     (case kindOf sp of None \<Rightarrow> False | Some k \<Rightarrow> k \<in> set foundationalKinds)"

text \<open>
  The namespace a spec carries, as line 186 tests it: a falsy \<open>metadata.namespace\<close>
  (missing or empty) is no namespace.
\<close>

definition carried :: "string option \<Rightarrow> string option" where
  "carried v = (if truthy v then v else None)"

text \<open>\<open>metadata.namespace\<close> replaced in a spec that has a metadata block.\<close>

definition withNamespace :: "string option \<Rightarrow> spec \<Rightarrow> spec" where
  "withNamespace v s = s\<lparr>metadata := map_option (\<lambda>m. m\<lparr>namespace := v\<rparr>) (metadata s)\<rparr>"

section \<open>Example documents\<close>

text \<open>The two documents of the example of the specification, and some others.\<close>

definition exNamespace :: spec where
  "exNamespace =
     \<lparr>apiVersion = Some ''v1'', kind = Some ''Namespace'',
      metadata = Some \<lparr>name = Some ''ns1'', namespace = None\<rparr>, body = []\<rparr>"

definition exDeployment :: spec where
  "exDeployment =
     \<lparr>apiVersion = Some ''apps/v1'', kind = Some ''Deployment'',
      metadata = Some \<lparr>name = Some ''web'', namespace = Some ''ns1''\<rparr>,
      body = ''replicas: 2''\<rparr>"

definition exWidget :: spec where
  "exWidget =
     \<lparr>apiVersion = Some ''example.com/v1'', kind = Some ''Widget'',
      metadata = Some \<lparr>name = Some ''w'', namespace = None\<rparr>, body = []\<rparr>"

definition exNameless :: spec where
  "exNameless =
     \<lparr>apiVersion = Some ''v1'', kind = Some ''ConfigMap'',
      metadata = Some \<lparr>name = None, namespace = None\<rparr>, body = []\<rparr>"

definition exCrd :: spec where
  "exCrd =
     \<lparr>apiVersion = Some ''apiextensions.k8s.io/v1beta1'',
      kind = Some ''CustomResourceDefinition'',
      metadata = Some \<lparr>name = Some ''widgets.example.com'', namespace = None\<rparr>,
      body = []\<rparr>"

definition exLowerNamespace :: spec where
  "exLowerNamespace =
     \<lparr>apiVersion = Some ''v1'', kind = Some ''namespace'',
      metadata = Some \<lparr>name = Some ''ns2'', namespace = Some ''other''\<rparr>, body = []\<rparr>"

text \<open>The caller's options in the manner of \<open>src/index.ts\<close> (lines 510-513).\<close>

definition exOptions :: options where
  "exOptions =
     Options ''k8s-provider'' (Some [Foreign ''k8s-cluster-admin''])
       [(''protect'', ''true'')]"

text \<open>A transform that gives a name to every document that has a metadata block.\<close>

definition exNaming :: "spec option \<Rightarrow> spec option" where
  "exNaming sp =
     (case sp of
        None \<Rightarrow> None
      | Some s \<Rightarrow>
          Some (s\<lparr>metadata :=
                    map_option (\<lambda>m. m\<lparr>name := Some ''generated''\<rparr>) (metadata s)\<rparr>))"

text \<open>A transform that omits every Deployment.\<close>

definition exNoDeployments :: "spec option \<Rightarrow> spec option" where
  "exNoDeployments sp = (if kindOf sp = Some ''Deployment'' then None else sp)"


text \<open>A transform that turns every document into a Namespace.\<close>

definition exRetag :: "spec option \<Rightarrow> spec option" where
  "exRetag sp = map_option (\<lambda>s. s\<lparr>kind := Some ''Namespace''\<rparr>) sp"

text \<open>
  The run of the example of the specification: the handle of the Namespace, created
  under the caller's options, the options of the dependent tier, and the handle of the
  Deployment.
\<close>

definition exNamespaceHandle :: resource where
  "exNamespaceHandle =
     Resource CoreV1_Namespace ''k8s/namespace/ns1'' exNamespace exOptions"

definition exRestOptions :: options where
  "exRestOptions =
     Options ''k8s-provider'' (Some [exNamespaceHandle]) [(''protect'', ''true'')]"

definition exDeploymentHandle :: resource where
  "exDeploymentHandle =
     Resource AppsV1_Deployment ''k8s/deployment/ns1/web'' exDeployment exRestOptions"

definition exArgs :: args where
  "exArgs =
     \<lparr>options = 0, specs = [Some exDeployment, None, Some exNamespace], transform = None\<rparr>"

definition exDependentOnly :: args where
  "exDependentOnly = \<lparr>options = 0, specs = [Some exDeployment], transform = None\<rparr>"

definition exRetagArgs :: args where
  "exRetagArgs =
     \<lparr>options = 0, specs = [Some exDeployment, None, Some exNamespace],
      transform = Some exRetag\<rparr>"

definition exNamingArgs :: args where
  "exNamingArgs = \<lparr>options = 0, specs = [Some exNameless], transform = Some exNaming\<rparr>"

definition exOmitArgs :: args where
  "exOmitArgs =
     \<lparr>options = 0, specs = [Some exNamespace, Some exDeployment, Some exWidget],
      transform = Some exNoDeployments\<rparr>"

section \<open>Auxiliary facts\<close>

lemmas ex_defs = exNamespace_def exDeployment_def exWidget_def exNameless_def exCrd_def
  exLowerNamespace_def exOptions_def exNaming_def exNoDeployments_def exRetag_def
  exNamespaceHandle_def exRestOptions_def exDeploymentHandle_def exArgs_def
  exDependentOnly_def exRetagArgs_def exNamingArgs_def exOmitArgs_def

lemmas run_defs = resourcesFromSpecs_def tier_def createSpecResource_def resourceClass_def
  transformOf_def isFirst_def isRest_def toLowerCase_def lowerChar_def Let_def



lemma specResourceName_None_iff: "specResourceName sp = None \<longleftrightarrow> \<not> hasIdentity sp"
  by (cases sp) (auto simp: hasIdentity_def Let_def split: option.splits)

lemma specResourceName_nonempty: "specResourceName sp = Some n \<Longrightarrow> n \<noteq> []"
  by (cases sp) (auto simp: Let_def split: option.splits if_splits)

lemma isRest_iff: "isRest s \<longleftrightarrow> \<not> isFirst s"
  by (auto simp: isFirst_def isRest_def)

lemma isFirst_iff: "isFirst s \<longleftrightarrow> isFoundational s"
  by (auto simp: isFirst_def isFoundational_def foundationalKinds_def split: option.splits)

lemma compact_append: "compact (xs @ ys) = compact xs @ compact ys"
  by (induction xs rule: compact.induct) simp_all

lemma tier_Nil: "tier p f [] opts = []"
  by (simp add: tier_def)

lemma tier_Cons:
  "tier p f (s # ss) opts =
     (if p s then (case createSpecResource (f s) opts of None \<Rightarrow> [] | Some r \<Rightarrow> [r]) else [])
     @ tier p f ss opts"
  by (simp add: tier_def split: option.splits)

lemma tier_append: "tier p f (xs @ ys) opts = tier p f xs opts @ tier p f ys opts"
  by (simp add: tier_def compact_append)

lemma tier_eq:
  "tier p f ss opts = compact (map (\<lambda>s. createSpecResource (f s) opts) (filter p ss))"
  by (simp add: tier_def comp_def)

lemma createSpecResource_None_iff:
  "createSpecResource sp opts = None \<longleftrightarrow> \<not> hasIdentity sp"
  using specResourceName_None_iff [of sp] specResourceName_nonempty [of sp]
  by (cases sp; cases "specResourceName sp") (auto simp: createSpecResource_def)

lemma createSpecResource_SomeD:
  assumes "createSpecResource sp opts = Some r"
  shows "\<exists>s n. sp = Some s \<and> specResourceName sp = Some n
           \<and> r = Resource (resourceClass s) n s opts"
  using assms
  by (cases sp; cases "specResourceName sp")
    (auto simp: createSpecResource_def split: if_splits)

lemma createSpecResource_ropts: "createSpecResource sp opts = Some r \<Longrightarrow> ropts r = opts"
  by (auto dest: createSpecResource_SomeD)

lemma createSpecResource_hasIdentity:
  "createSpecResource sp opts = Some r \<Longrightarrow> hasIdentity sp"
  using createSpecResource_None_iff [of sp opts] by auto

lemma createSpecResource_omitted: "createSpecResource None opts = None"
  by (simp add: createSpecResource_def)

lemma tier_ropts: "r \<in> set (tier p f ss opts) \<Longrightarrow> ropts r = opts"
proof (induction ss)
  case Nil
  then show ?case by (simp add: tier_Nil)
next
  case (Cons s ss)
  from Cons.prems consider
    (head) "createSpecResource (f s) opts = Some r" | (tail) "r \<in> set (tier p f ss opts)"
    by (cases "p s"; cases "createSpecResource (f s) opts") (auto simp: tier_Cons)
  then show ?case
  proof cases
    case head
    then show ?thesis by (rule createSpecResource_ropts)
  next
    case tail
    then show ?thesis by (rule Cons.IH)
  qed
qed

lemma tier_sources:
  "list_all2 (\<lambda>s r. createSpecResource (f s) opts = Some r)
     (filter (\<lambda>s. hasIdentity (f s)) (filter p ss)) (tier p f ss opts)"
proof (induction ss)
  case Nil
  show ?case by (simp add: tier_Nil)
next
  case (Cons s ss)
  show ?case
  proof (cases "p s \<and> hasIdentity (f s)")
    case True
    then obtain r where "createSpecResource (f s) opts = Some r"
      using createSpecResource_None_iff [of "f s" opts]
      by (cases "createSpecResource (f s) opts") auto
    with True Cons.IH show ?thesis by (simp add: tier_Cons)
  next
    case False
    then have "p s \<Longrightarrow> createSpecResource (f s) opts = None"
      by (simp add: createSpecResource_None_iff)
    with False Cons.IH show ?thesis by (auto simp: tier_Cons)
  qed
qed

lemma tier_omitted:
  assumes "f s = None"
  shows "tier p f (xs @ s # ys) opts = tier p f (xs @ ys) opts"
  using assms by (simp add: tier_append tier_Cons createSpecResource_omitted)

lemma set_dependsOn_eq:
  "set_dependsOn opts rs = Options (provider opts) (Some rs) (settings opts)"
  by (cases opts) simp

lemma resourcesFromSpecs_unfold:
  assumes "options a < length h"
  shows "resourcesFromSpecs h a =
     Some (h @ [if tier isFirst (transformOf a) (specs a) (h ! options a) = []
                then h ! options a
                else Options (provider (h ! options a))
                       (Some (tier isFirst (transformOf a) (specs a) (h ! options a)))
                       (settings (h ! options a))],
           tier isFirst (transformOf a) (specs a) (h ! options a)
           @ tier isRest (transformOf a) (specs a)
               (if tier isFirst (transformOf a) (specs a) (h ! options a) = []
                then h ! options a
                else Options (provider (h ! options a))
                       (Some (tier isFirst (transformOf a) (specs a) (h ! options a)))
                       (settings (h ! options a))))"
  using assms
  by (simp add: resourcesFromSpecs_def Let_def set_dependsOn_eq nth_append)

lemma specResourceName_withNamespace:
  assumes "kind s = Some k" and "k \<noteq> []" and "toLowerCase k \<noteq> ''namespace''"
    and "nameOf (Some s) = Some n" and "n \<noteq> []"
  shows "specResourceName (Some (withNamespace v s)) =
           Some (''k8s/'' @ toLowerCase k @ ''/'' @
                 (case carried v of None \<Rightarrow> n | Some ns \<Rightarrow> ns @ ''/'' @ n))"
  using assms
  by (cases "metadata s"; cases v) (auto simp: withNamespace_def carried_def Let_def)

lemma resourceClass_apiVersion_irrelevant:
  assumes "kind s \<noteq> Some ''MutatingWebhookConfiguration''"
    and "kind s \<noteq> Some ''ValidatingWebhookConfiguration''"
    and "kind s \<noteq> Some ''CustomResourceDefinition''"
  shows "resourceClass (s\<lparr>apiVersion := v\<rparr>) = resourceClass s"
  using assms by (simp add: resourceClass_def)

lemma specResourceName_apiVersion:
  "specResourceName (Some (s\<lparr>apiVersion := v\<rparr>)) = specResourceName (Some s)"
  by (simp add: Let_def split: option.split)


section \<open>The dependent tier's options\<close>

text \<open>
  Claim C1 as the specification states it fails: line 60 assigns \<open>dependsOn\<close>, it does not
  add to it. In the run of the example the caller's options depend on the foreign
  resource \<open>k8s-cluster-admin\<close>, and the options under which the Deployment is created
  depend on the Namespace handle alone.
\<close>

theorem caller_dependsOn_dropped:
  "resourcesFromSpecs [exOptions] exArgs
     = Some ([exOptions, exRestOptions], [exNamespaceHandle, exDeploymentHandle])
   \<and> ropts exDeploymentHandle = exRestOptions
   \<and> dependsOn exOptions = Some [Foreign ''k8s-cluster-admin'']
   \<and> dependsOn exRestOptions = Some [exNamespaceHandle]
   \<and> Foreign ''k8s-cluster-admin'' \<notin> set [exNamespaceHandle]"
  by (simp add: ex_defs run_defs)

text \<open>
  Claim C1, amended. For every store, specs, transform and live caller's options, every
  dependent-tier spec is materialized under one options value \<open>last h'\<close> (the copy): its
  provider and its other settings are the caller's, and its \<open>dependsOn\<close> is the list of
  tier-1 handles actually produced, replacing whatever the caller supplied, when that
  list is not empty; when tier 1 produces no handle, the value is the caller's options
  unmodified.
\<close>

theorem dependent_tier_options:
  assumes "options a < length h"
  shows "\<exists>h' first rest.
           resourcesFromSpecs h a = Some (h', first @ rest)
         \<and> first = tier isFirst (transformOf a) (specs a) (h ! options a)
         \<and> rest = compact (map (\<lambda>s. createSpecResource (transformOf a s) (last h'))
                     (filter (\<lambda>s. \<not> isFirst s) (specs a)))
         \<and> (\<forall>r \<in> set rest. ropts r = last h')
         \<and> provider (last h') = provider (h ! options a)
         \<and> settings (last h') = settings (h ! options a)
         \<and> dependsOn (last h') = (if first = [] then dependsOn (h ! options a) else Some first)
         \<and> (first = [] \<longrightarrow> last h' = h ! options a)"
proof -
  define first where "first = tier isFirst (transformOf a) (specs a) (h ! options a)"
  define opts where "opts = (if first = [] then h ! options a
     else Options (provider (h ! options a)) (Some first) (settings (h ! options a)))"
  define rest where "rest = tier isRest (transformOf a) (specs a) opts"
  have run: "resourcesFromSpecs h a = Some (h @ [opts], first @ rest)"
    using resourcesFromSpecs_unfold [OF assms] by (simp add: first_def opts_def rest_def)
  have rest_eq:
    "rest = compact (map (\<lambda>s. createSpecResource (transformOf a s) (last (h @ [opts])))
              (filter (\<lambda>s. \<not> isFirst s) (specs a)))"
    by (simp add: rest_def tier_eq isRest_iff [abs_def])
  have under: "\<forall>r \<in> set rest. ropts r = last (h @ [opts])"
    by (auto simp: rest_def dest: tier_ropts)
  have fields:
    "provider opts = provider (h ! options a)"
    "settings opts = settings (h ! options a)"
    "dependsOn opts = (if first = [] then dependsOn (h ! options a) else Some first)"
    "first = [] \<longrightarrow> opts = h ! options a"
    by (simp_all add: opts_def)
  show ?thesis
    using run rest_eq under fields first_def
    by (intro exI [of _ "h @ [opts]"] exI [of _ first] exI [of _ rest]) simp
qed

theorem dependent_tier_options_witness:
  "options exArgs < length [exOptions]
   \<and> (\<exists>h' first rest.
         resourcesFromSpecs [exOptions] exArgs = Some (h', first @ rest)
       \<and> first = [exNamespaceHandle]
       \<and> (\<forall>r \<in> set rest. ropts r = last h')
       \<and> provider (last h') = ''k8s-provider''
       \<and> settings (last h') = [(''protect'', ''true'')]
       \<and> dependsOn (last h') = Some [exNamespaceHandle])
   \<and> options exDependentOnly < length [exOptions]
   \<and> (\<exists>h' rest.
         resourcesFromSpecs [exOptions] exDependentOnly = Some (h', rest)
       \<and> (\<forall>r \<in> set rest. ropts r = last h')
       \<and> last h' = exOptions)"
proof -
  have live: "options exArgs < length [exOptions]"
    by (simp add: exArgs_def)
  have first: "tier isFirst (transformOf exArgs) (specs exArgs) exOptions
                 = [exNamespaceHandle]"
    by (simp add: ex_defs run_defs)
  have caller: "[exOptions] ! options exArgs = exOptions"
    "provider exOptions = ''k8s-provider''" "settings exOptions = [(''protect'', ''true'')]"
    by (simp_all add: exArgs_def exOptions_def)
  have live': "options exDependentOnly < length [exOptions]"
    by (simp add: exDependentOnly_def)
  have first': "tier isFirst (transformOf exDependentOnly) (specs exDependentOnly)
                  exOptions = []"
    by (simp add: ex_defs run_defs)
  have caller': "[exOptions] ! options exDependentOnly = exOptions"
    by (simp add: exDependentOnly_def)
  have one: "\<exists>h' first rest.
         resourcesFromSpecs [exOptions] exArgs = Some (h', first @ rest)
       \<and> first = [exNamespaceHandle]
       \<and> (\<forall>r \<in> set rest. ropts r = last h')
       \<and> provider (last h') = ''k8s-provider''
       \<and> settings (last h') = [(''protect'', ''true'')]
       \<and> dependsOn (last h') = Some [exNamespaceHandle]"
    using dependent_tier_options [OF live] unfolding caller first by auto
  have two: "\<exists>h' rest.
         resourcesFromSpecs [exOptions] exDependentOnly = Some (h', rest)
       \<and> (\<forall>r \<in> set rest. ropts r = last h')
       \<and> last h' = exOptions"
    using dependent_tier_options [OF live'] unfolding caller' first' by auto
  show ?thesis
    using live one live' two by blast
qed

section \<open>Tiers and order\<close>

text \<open>
  Claim C2. For every input sequence, the specs are partitioned by their own kind, as
  it is before the transform: exactly the kinds \<open>CustomResourceDefinition\<close> and
  \<open>Namespace\<close> are foundational, every other spec (one without a kind too) is dependent.
  \<open>partition\<close> keeps the relative order in both parts. The result is the handles of the
  transformed foundational specs, in that order, followed by the handles of the
  transformed dependent specs, in that order.
\<close>

theorem tiers_partition_order:
  assumes "options a < length h"
  shows "\<exists>h' yes no.
           partition isFoundational (specs a) = (yes, no)
         \<and> resourcesFromSpecs h a =
             Some (h',
               compact (map (\<lambda>s. createSpecResource (transformOf a s) (h ! options a)) yes)
               @ compact (map (\<lambda>s. createSpecResource (transformOf a s) (last h')) no))"
proof -
  have yes: "filter isFirst (specs a) = filter isFoundational (specs a)"
    by (simp add: isFirst_iff [abs_def])
  have no: "filter isRest (specs a) = filter (Not \<circ> isFoundational) (specs a)"
    by (simp add: isRest_iff [abs_def] isFirst_iff [abs_def] comp_def)
  show ?thesis
    using resourcesFromSpecs_unfold [OF assms]
    by (simp add: tier_eq yes no)
qed

theorem tiers_partition_order_witness:
  "options exRetagArgs < length [exOptions]
   \<and> partition isFoundational (specs exRetagArgs)
       = ([Some exNamespace], [Some exDeployment, None])
   \<and> (\<exists>h'. resourcesFromSpecs [exOptions] exRetagArgs =
         Some (h',
           compact (map (\<lambda>s. createSpecResource (exRetag s) exOptions) [Some exNamespace])
           @ compact (map (\<lambda>s. createSpecResource (exRetag s) (last h'))
               [Some exDeployment, None])))
   \<and> resourcesFromSpecs [exOptions] exRetagArgs =
         Some ([exOptions, exRestOptions],
           [exNamespaceHandle,
            Resource CoreV1_Namespace ''k8s/namespace/web''
              (exDeployment\<lparr>kind := Some ''Namespace''\<rparr>) exRestOptions])"
proof -
  have live: "options exRetagArgs < length [exOptions]"
    by (simp add: exRetagArgs_def)
  have parts: "partition isFoundational (specs exRetagArgs)
       = ([Some exNamespace], [Some exDeployment, None])"
    by (simp add: ex_defs isFoundational_def foundationalKinds_def)
  have given: "transformOf exRetagArgs = exRetag" "[exOptions] ! options exRetagArgs = exOptions"
    by (simp_all add: exRetagArgs_def transformOf_def)
  have run: "resourcesFromSpecs [exOptions] exRetagArgs =
         Some ([exOptions, exRestOptions],
           [exNamespaceHandle,
            Resource CoreV1_Namespace ''k8s/namespace/web''
              (exDeployment\<lparr>kind := Some ''Namespace''\<rparr>) exRestOptions])"
    by (simp add: ex_defs run_defs)
  have "\<exists>h'. resourcesFromSpecs [exOptions] exRetagArgs =
         Some (h',
           compact (map (\<lambda>s. createSpecResource (exRetag s) exOptions) [Some exNamespace])
           @ compact (map (\<lambda>s. createSpecResource (exRetag s) (last h'))
               [Some exDeployment, None]))"
    using tiers_partition_order [OF live] unfolding parts given by blast
  with live parts run show ?thesis by blast
qed

section \<open>One handle or none\<close>

text \<open>
  Claim C3. For every spec reaching \<open>createSpecResource\<close>: when \<open>kind\<close> and
  \<open>metadata.name\<close> are both present (truthy) there is exactly one handle, of the class of
  the branch chain, named by \<open>specResourceName\<close> and holding the spec and the options; a
  kind that the chain does not name gets the generic \<open>CustomResource\<close>. When either field
  is missing (the spec itself missing, the field \<open>undefined\<close>, \<open>null\<close> or empty) there is
  no handle. The function has no other outcome: the source throws nowhere, and every
  field it reads before line 184 is read through \<open>?.\<close>.
\<close>

theorem createSpecResource_identity:
  "(hasIdentity sp \<longrightarrow>
      (\<exists>s n. sp = Some s \<and> specResourceName sp = Some n
         \<and> createSpecResource sp opts = Some (Resource (resourceClass s) n s opts)
         \<and> (\<forall>k. kind s = Some k \<and> k \<notin> set mappedKinds
               \<longrightarrow> resourceClass s = Apiextensions_CustomResource)))
   \<and> (\<not> hasIdentity sp \<longrightarrow> createSpecResource sp opts = None)"
proof (intro conjI impI)
  assume id: "hasIdentity sp"
  then obtain s where sp: "sp = Some s"
    by (cases sp) (auto simp: hasIdentity_def)
  from id obtain n where n: "specResourceName sp = Some n"
    using specResourceName_None_iff [of sp] by (cases "specResourceName sp") auto
  have "createSpecResource sp opts = Some (Resource (resourceClass s) n s opts)"
    using sp n specResourceName_nonempty [OF n] by (simp add: createSpecResource_def)
  moreover have "\<forall>k. kind s = Some k \<and> k \<notin> set mappedKinds
               \<longrightarrow> resourceClass s = Apiextensions_CustomResource"
    by (auto simp: mappedKinds_def resourceClass_def)
  ultimately show "\<exists>s n. sp = Some s \<and> specResourceName sp = Some n
         \<and> createSpecResource sp opts = Some (Resource (resourceClass s) n s opts)
         \<and> (\<forall>k. kind s = Some k \<and> k \<notin> set mappedKinds
               \<longrightarrow> resourceClass s = Apiextensions_CustomResource)"
    using sp n by blast
next
  assume "\<not> hasIdentity sp"
  then show "createSpecResource sp opts = None"
    by (simp add: createSpecResource_None_iff)
qed

theorem createSpecResource_identity_witness:
  "hasIdentity (Some exWidget) \<and> kind exWidget = Some ''Widget''
   \<and> ''Widget'' \<notin> set mappedKinds
   \<and> createSpecResource (Some exWidget) exOptions
       = Some (Resource Apiextensions_CustomResource ''k8s/widget/w'' exWidget exOptions)
   \<and> \<not> hasIdentity (Some exNameless)
   \<and> createSpecResource (Some exNameless) exOptions = None
   \<and> \<not> hasIdentity None \<and> createSpecResource None exOptions = None"
  using createSpecResource_identity [of "Some exWidget" exOptions]
    createSpecResource_identity [of "Some exNameless" exOptions]
    createSpecResource_identity [of None exOptions]
  by (simp add: hasIdentity_def mappedKinds_def exWidget_def exNameless_def toLowerCase_def
      lowerChar_def)

section \<open>Handles and their input specs\<close>

text \<open>
  Claim C4 as the specification states it fails: the identity fields are tested on the
  result of the transform, not on the input. The one input spec below has no name, the
  transform gives it one, and a handle is produced.
\<close>

theorem handle_from_nameless_input:
  "specs exNamingArgs = [Some exNameless]
   \<and> \<not> hasIdentity (Some exNameless)
   \<and> resourcesFromSpecs [exOptions] exNamingArgs
       = Some ([exOptions, exOptions],
           [Resource CoreV1_ConfigMap ''k8s/configmap/generated''
              (exNameless\<lparr>metadata := Some \<lparr>name = Some ''generated'', namespace = None\<rparr>\<rparr>)
              exOptions])"
  by (simp add: ex_defs run_defs hasIdentity_def)

text \<open>
  Claim C4, amended. For all input sequences and every transform, the output handles
  are, one for one and in order, the handles of the input specs whose transformed spec
  has both \<open>kind\<close> and \<open>metadata.name\<close> present, the foundational ones first; and the two
  tiers together hold every input spec exactly once.
\<close>

theorem handles_from_transformed_specs:
  assumes "options a < length h"
  shows "\<exists>h' rs.
           resourcesFromSpecs h a = Some (h', rs)
         \<and> list_all2
             (\<lambda>s r. hasIdentity (transformOf a s)
                   \<and> createSpecResource (transformOf a s) (ropts r) = Some r)
             (filter (\<lambda>s. hasIdentity (transformOf a s))
                (filter isFirst (specs a) @ filter isRest (specs a)))
             rs
         \<and> mset (filter isFirst (specs a) @ filter isRest (specs a)) = mset (specs a)"
proof -
  define first where "first = tier isFirst (transformOf a) (specs a) (h ! options a)"
  obtain opts where
    run: "resourcesFromSpecs h a
            = Some (h @ [opts], first @ tier isRest (transformOf a) (specs a) opts)"
    using resourcesFromSpecs_unfold [OF assms] by (auto simp: first_def)
  have src: "list_all2 (\<lambda>s r. hasIdentity (transformOf a s)
                 \<and> createSpecResource (transformOf a s) (ropts r) = Some r)
       (filter (\<lambda>s. hasIdentity (transformOf a s)) (filter p (specs a)))
       (tier p (transformOf a) (specs a) o')" for p o'
  proof -
    have "list_all2 (\<lambda>s r. createSpecResource (transformOf a s) o' = Some r)
       (filter (\<lambda>s. hasIdentity (transformOf a s)) (filter p (specs a)))
       (tier p (transformOf a) (specs a) o')"
      by (rule tier_sources)
    then show ?thesis
      by (rule list_all2_mono)
        (auto dest: createSpecResource_ropts createSpecResource_hasIdentity)
  qed
  have "list_all2 (\<lambda>s r. hasIdentity (transformOf a s)
                 \<and> createSpecResource (transformOf a s) (ropts r) = Some r)
           (filter (\<lambda>s. hasIdentity (transformOf a s)) (filter isFirst (specs a))
            @ filter (\<lambda>s. hasIdentity (transformOf a s)) (filter isRest (specs a)))
           (first @ tier isRest (transformOf a) (specs a) opts)"
    unfolding first_def by (intro list_all2_appendI src)
  moreover have "mset (filter isFirst (specs a) @ filter isRest (specs a)) = mset (specs a)"
    by (simp add: isRest_iff [abs_def])
  ultimately show ?thesis
    using run by (simp del: filter_filter)
qed

theorem handles_from_transformed_specs_witness:
  "options exNamingArgs < length [exOptions]
   \<and> hasIdentity (transformOf exNamingArgs (Some exNameless))
   \<and> (\<exists>h' rs.
         resourcesFromSpecs [exOptions] exNamingArgs = Some (h', rs)
       \<and> list_all2
           (\<lambda>s r. hasIdentity (transformOf exNamingArgs s)
                 \<and> createSpecResource (transformOf exNamingArgs s) (ropts r) = Some r)
           [Some exNameless] rs)"
proof -
  have live: "options exNamingArgs < length [exOptions]"
    by (simp add: exNamingArgs_def)
  have named: "hasIdentity (transformOf exNamingArgs (Some exNameless))"
    by (simp add: ex_defs transformOf_def hasIdentity_def)
  have tiers: "filter isFirst (specs exNamingArgs) = []"
    "filter isRest (specs exNamingArgs) = [Some exNameless]"
    by (simp_all add: ex_defs isFirst_def isRest_def)
  show ?thesis
    using handles_from_transformed_specs [OF live] live named
    unfolding tiers by auto
qed

section \<open>Omission\<close>

text \<open>
  Claim C5. When the transform returns \<open>undefined\<close> for a spec of the input, no handle
  is produced for it, and the whole result (the handles of the other specs, and the
  store, so the dependency list given to the dependent tier) is the result for the
  input without that spec.
\<close>

theorem omitted_spec_as_absent:
  assumes "specs a = xs @ s # ys" and "transformOf a s = None"
  shows "resourcesFromSpecs h a = resourcesFromSpecs h (a\<lparr>specs := xs @ ys\<rparr>)
         \<and> createSpecResource (transformOf a s) opts = None"
proof -
  have tr: "transformOf (a\<lparr>specs := xs @ ys\<rparr>) = transformOf a"
    by (simp add: transformOf_def fun_eq_iff)
  have same: "tier p (transformOf a) (specs a) o' = tier p (transformOf a) (xs @ ys) o'"
    for p o'
    using assms by (simp add: tier_omitted)
  have "resourcesFromSpecs h a = resourcesFromSpecs h (a\<lparr>specs := xs @ ys\<rparr>)"
    by (simp add: resourcesFromSpecs_def tr same)
  moreover have "createSpecResource (transformOf a s) opts = None"
    using assms(2) by (simp add: createSpecResource_omitted)
  ultimately show ?thesis by simp
qed

theorem omitted_spec_as_absent_witness:
  "specs exOmitArgs = [Some exNamespace] @ Some exDeployment # [Some exWidget]
   \<and> transformOf exOmitArgs (Some exDeployment) = None
   \<and> resourcesFromSpecs [exOptions] exOmitArgs
       = resourcesFromSpecs [exOptions]
           (exOmitArgs\<lparr>specs := [Some exNamespace] @ [Some exWidget]\<rparr>)
   \<and> resourcesFromSpecs [exOptions] exOmitArgs
       = Some ([exOptions, exRestOptions],
           [exNamespaceHandle,
            Resource Apiextensions_CustomResource ''k8s/widget/w'' exWidget exRestOptions])
   \<and> createSpecResource (transformOf exOmitArgs (Some exDeployment)) exOptions = None"
proof -
  have split: "specs exOmitArgs = [Some exNamespace] @ Some exDeployment # [Some exWidget]"
    by (simp add: exOmitArgs_def)
  have omit: "transformOf exOmitArgs (Some exDeployment) = None"
    by (simp add: ex_defs transformOf_def)
  have run: "resourcesFromSpecs [exOptions] exOmitArgs
       = Some ([exOptions, exRestOptions],
           [exNamespaceHandle,
            Resource Apiextensions_CustomResource ''k8s/widget/w'' exWidget exRestOptions])"
    by (simp add: ex_defs run_defs)
  show ?thesis
    using omitted_spec_as_absent [OF split omit, of "[exOptions]" exOptions] split omit run
    by simp
qed

section \<open>The derived identifier\<close>



text \<open>
  Claim C7 as the specification states it fails: an empty namespace and a missing one
  are two distinct values of \<open>metadata.namespace\<close>, and line 186 treats both as no
  namespace, so the Deployment of the example gets the same identifier with either.
\<close>

theorem empty_namespace_same_identifier:
  "kind exDeployment = Some ''Deployment''
   \<and> nameOf (Some exDeployment) = Some ''web''
   \<and> Some [] \<noteq> (None :: string option)
   \<and> specResourceName (Some (withNamespace (Some []) exDeployment))
       = specResourceName (Some (withNamespace None exDeployment))"
  by (simp add: exDeployment_def withNamespace_def toLowerCase_def lowerChar_def)

text \<open>
  Claim C7, amended. For every spec with \<open>kind\<close> and \<open>metadata.name\<close> present whose
  lower-cased kind is not \<open>namespace\<close>, two values of \<open>metadata.namespace\<close> give the same
  identifier exactly when they carry the same namespace, an empty namespace counting as
  an absent one; so two values that are distinct in that sense give two identifiers.
\<close>

theorem namespace_distinguishes_identifier:
  assumes "kind s = Some k" and "k \<noteq> []" and "toLowerCase k \<noteq> ''namespace''"
    and "nameOf (Some s) = Some n" and "n \<noteq> []"
  shows "specResourceName (Some (withNamespace v s))
           = specResourceName (Some (withNamespace w s))
         \<longleftrightarrow> carried v = carried w"
proof -
  have shorter: "n \<noteq> b @ ''/'' @ n" for b :: string
  proof
    assume "n = b @ ''/'' @ n"
    then have "length n = length (b @ ''/'' @ n)" by simp
    then show False by simp
  qed
  have "(case carried v of None \<Rightarrow> n | Some ns \<Rightarrow> ns @ ''/'' @ n)
        = (case carried w of None \<Rightarrow> n | Some ns \<Rightarrow> ns @ ''/'' @ n)
        \<longleftrightarrow> carried v = carried w"
    using shorter by (cases "carried v"; cases "carried w") (auto simp: eq_commute [of n])
  then show ?thesis
    unfolding specResourceName_withNamespace [OF assms] by simp
qed

theorem namespace_distinguishes_identifier_witness:
  "kind exDeployment = Some ''Deployment'' \<and> toLowerCase ''Deployment'' \<noteq> ''namespace''
   \<and> nameOf (Some exDeployment) = Some ''web''
   \<and> carried (Some ''ns1'') \<noteq> carried (Some ''ns2'')
   \<and> specResourceName (Some (withNamespace (Some ''ns1'') exDeployment))
       \<noteq> specResourceName (Some (withNamespace (Some ''ns2'') exDeployment))
   \<and> carried (Some ''ns1'') \<noteq> carried None
   \<and> specResourceName (Some (withNamespace (Some ''ns1'') exDeployment))
       \<noteq> specResourceName (Some (withNamespace None exDeployment))"
  using namespace_distinguishes_identifier
      [of exDeployment "''Deployment''" "''web''" "Some ''ns1''" "Some ''ns2''"]
    namespace_distinguishes_identifier
      [of exDeployment "''Deployment''" "''web''" "Some ''ns1''" None]
  by (simp add: exDeployment_def carried_def toLowerCase_def lowerChar_def)

section \<open>Schema revisions\<close>

text \<open>
  Claim C8. For a spec that gets a handle: when its kind is
  \<open>MutatingWebhookConfiguration\<close>, \<open>ValidatingWebhookConfiguration\<close> or
  \<open>CustomResourceDefinition\<close>, the class is the v1beta1 one if \<open>apiVersion\<close> is the
  v1beta1 string of that kind and the v1 one for every other \<open>apiVersion\<close>, a missing
  one too; for every other kind, the class is the same whatever \<open>apiVersion\<close> is.
\<close>

theorem apiVersion_selects_revision:
  assumes "createSpecResource (Some s) opts = Some r"
  shows "(kind s = Some ''MutatingWebhookConfiguration'' \<longrightarrow>
            rfamily r = (if apiVersion s = Some ''admissionregistration.k8s.io/v1beta1''
                         then AdmissionregistrationV1beta1_MutatingWebhookConfiguration
                         else AdmissionregistrationV1_MutatingWebhookConfiguration))
       \<and> (kind s = Some ''ValidatingWebhookConfiguration'' \<longrightarrow>
            rfamily r = (if apiVersion s = Some ''admissionregistration.k8s.io/v1beta1''
                         then AdmissionregistrationV1beta1_ValidatingWebhookConfiguration
                         else AdmissionregistrationV1_ValidatingWebhookConfiguration))
       \<and> (kind s = Some ''CustomResourceDefinition'' \<longrightarrow>
            rfamily r = (if apiVersion s = Some ''apiextensions.k8s.io/v1beta1''
                         then ApiextensionsV1beta1_CustomResourceDefinition
                         else ApiextensionsV1_CustomResourceDefinition))
       \<and> (kind s \<noteq> Some ''MutatingWebhookConfiguration''
            \<and> kind s \<noteq> Some ''ValidatingWebhookConfiguration''
            \<and> kind s \<noteq> Some ''CustomResourceDefinition'' \<longrightarrow>
            (\<forall>v. \<exists>r'. createSpecResource (Some (s\<lparr>apiVersion := v\<rparr>)) opts = Some r'
                      \<and> rfamily r' = rfamily r))"
proof -
  obtain n where n: "specResourceName (Some s) = Some n"
    and r: "r = Resource (resourceClass s) n s opts"
    using createSpecResource_SomeD [OF assms] by auto
  have fam: "rfamily r = resourceClass s" by (simp add: r)
  have m: "kind s = Some ''MutatingWebhookConfiguration'' \<Longrightarrow>
            resourceClass s = (if apiVersion s = Some ''admissionregistration.k8s.io/v1beta1''
                         then AdmissionregistrationV1beta1_MutatingWebhookConfiguration
                         else AdmissionregistrationV1_MutatingWebhookConfiguration)"
    by (simp add: resourceClass_def)
  have w: "kind s = Some ''ValidatingWebhookConfiguration'' \<Longrightarrow>
            resourceClass s = (if apiVersion s = Some ''admissionregistration.k8s.io/v1beta1''
                         then AdmissionregistrationV1beta1_ValidatingWebhookConfiguration
                         else AdmissionregistrationV1_ValidatingWebhookConfiguration)"
    by (simp add: resourceClass_def)
  have c: "kind s = Some ''CustomResourceDefinition'' \<Longrightarrow>
            resourceClass s = (if apiVersion s = Some ''apiextensions.k8s.io/v1beta1''
                         then ApiextensionsV1beta1_CustomResourceDefinition
                         else ApiextensionsV1_CustomResourceDefinition)"
    by (simp add: resourceClass_def)
  have other: "createSpecResource (Some (s\<lparr>apiVersion := v\<rparr>)) opts
                 = Some (Resource (resourceClass s) n (s\<lparr>apiVersion := v\<rparr>) opts)"
    if "kind s \<noteq> Some ''MutatingWebhookConfiguration''"
      "kind s \<noteq> Some ''ValidatingWebhookConfiguration''"
      "kind s \<noteq> Some ''CustomResourceDefinition''" for v
    unfolding createSpecResource_def specResourceName_apiVersion n
    using resourceClass_apiVersion_irrelevant [OF that] specResourceName_nonempty [OF n]
    by simp
  show ?thesis
    unfolding fam using m w c other by (intro conjI impI allI) (simp_all add: r)
qed

theorem apiVersion_selects_revision_witness:
  "createSpecResource (Some exCrd) exOptions
      = Some (Resource ApiextensionsV1beta1_CustomResourceDefinition
                ''k8s/customresourcedefinition/widgets.example.com'' exCrd exOptions)
   \<and> kind exCrd = Some ''CustomResourceDefinition''
   \<and> apiVersion exCrd = Some ''apiextensions.k8s.io/v1beta1''
   \<and> createSpecResource (Some (exCrd\<lparr>apiVersion := Some ''apiextensions.k8s.io/v1''\<rparr>)) exOptions
      = Some (Resource ApiextensionsV1_CustomResourceDefinition
                ''k8s/customresourcedefinition/widgets.example.com''
                (exCrd\<lparr>apiVersion := Some ''apiextensions.k8s.io/v1''\<rparr>) exOptions)
   \<and> createSpecResource (Some exDeployment) exOptions
      = Some (Resource AppsV1_Deployment ''k8s/deployment/ns1/web'' exDeployment exOptions)
   \<and> kind exDeployment = Some ''Deployment''
   \<and> (\<forall>v. \<exists>r'. createSpecResource (Some (exDeployment\<lparr>apiVersion := v\<rparr>)) exOptions = Some r'
                \<and> rfamily r' = AppsV1_Deployment)"
proof -
  have crd: "createSpecResource (Some exCrd) exOptions
      = Some (Resource ApiextensionsV1beta1_CustomResourceDefinition
                ''k8s/customresourcedefinition/widgets.example.com'' exCrd exOptions)"
    by (simp add: createSpecResource_def resourceClass_def exCrd_def toLowerCase_def
        lowerChar_def)
  have crd1:
    "createSpecResource (Some (exCrd\<lparr>apiVersion := Some ''apiextensions.k8s.io/v1''\<rparr>)) exOptions
      = Some (Resource ApiextensionsV1_CustomResourceDefinition
                ''k8s/customresourcedefinition/widgets.example.com''
                (exCrd\<lparr>apiVersion := Some ''apiextensions.k8s.io/v1''\<rparr>) exOptions)"
    by (simp add: createSpecResource_def resourceClass_def exCrd_def toLowerCase_def
        lowerChar_def)
  have dep: "createSpecResource (Some exDeployment) exOptions
      = Some (Resource AppsV1_Deployment ''k8s/deployment/ns1/web'' exDeployment exOptions)"
    by (simp add: createSpecResource_def resourceClass_def exDeployment_def toLowerCase_def
        lowerChar_def)
  show ?thesis
    using apiVersion_selects_revision [OF crd] apiVersion_selects_revision [OF crd1]
      apiVersion_selects_revision [OF dep] crd crd1 dep
    by (simp add: exCrd_def exDeployment_def)
qed

section \<open>Letter case\<close>



section \<open>The caller's options object\<close>



end
